theory Spec2Isabelle
  imports Complex_Main
begin

section \<open>Names\<close>

text \<open>
  Python's \<^verbatim>\<open>str(i)\<close> on a non-negative integer: its decimal digits, most significant
  first, without leading zeros.
\<close>

fun str :: "nat \<Rightarrow> string" where
  "str n = (if n < 10 then [''0123456789'' ! n]
            else str (n div 10) @ [''0123456789'' ! (n mod 10)])"

declare str.simps [simp del]

definition is_digit :: "char \<Rightarrow> bool" where
  "is_digit c = (c \<in> set ''0123456789'')"

definition digit_val :: "char \<Rightarrow> nat" where
  "digit_val c = length (takeWhile (\<lambda>d. d \<noteq> c) ''0123456789'')"

definition nat_of_str :: "string \<Rightarrow> nat" where
  "nat_of_str ds = foldl (\<lambda>a c. 10 * a + digit_val c) 0 ds"

text \<open>
  Modelled from the spec: \<^verbatim>\<open>utils.make_name\<close> is not among the sources. The spec
  asks for node names that are unique within the graph; the model is a fresh-name supply
  that appends a running counter to the base name. The counter is kept in the graph
  context (\<open>internal_name\<close> below).
\<close>

definition name_with_counter :: "string \<Rightarrow> nat \<Rightarrow> string" where
  "name_with_counter base k = base @ ''__'' @ str k"

text \<open>The name of output slot \<open>i\<close> of a node that was created without explicit output names.\<close>

definition port :: "string \<Rightarrow> nat \<Rightarrow> string" where
  "port nm i = nm @ '':'' @ str i"

text \<open>
  Reading the counter back from a name, and the node name back from an output name.
  \<open>is_internal k s\<close> says that \<open>s\<close> looks like a node name or an output name that the
  supply may still issue once its counter has reached \<open>k\<close>.
\<close>

definition name_counter :: "string \<Rightarrow> nat option" where
  "name_counter s =
     (let r = rev s; ds = takeWhile is_digit r; rest = dropWhile is_digit r
      in if ds \<noteq> [] \<and> take 2 rest = ''__'' then Some (nat_of_str (rev ds)) else None)"

definition strip_port :: "string \<Rightarrow> string" where
  "strip_port s =
     (let r = rev s; ds = takeWhile is_digit r; rest = dropWhile is_digit r
      in if ds \<noteq> [] \<and> take 1 rest = '':'' then rev (drop 1 rest) else s)"

definition is_internal :: "nat \<Rightarrow> string \<Rightarrow> bool" where
  "is_internal k s =
     (case name_counter (strip_port s) of Some c \<Rightarrow> k \<le> c | None \<Rightarrow> False)"

section \<open>Data model\<close>

datatype dtype = FLOAT | FLOAT16 | DOUBLE | INT32 | INT64

text \<open>
  A constant tensor as numpy builds it: element type, shape, elements in row-major order.
  Elements are kept as real numbers; integer data is embedded. The rounding that a cast
  to a narrower element type performs is not modelled.
\<close>

datatype tensor = Tensor (t_dtype: dtype) (t_shape: "int list") (t_data: "real list")

text \<open>\<^verbatim>\<open>np.array(v, dtype=dt)\<close> on a scalar, \<^verbatim>\<open>np.array(xs, dtype=np.int64)\<close> on a list,
  and \<^verbatim>\<open>np.zeros([n], dtype=dt)\<close>.\<close>

definition np_scalar :: "dtype \<Rightarrow> real \<Rightarrow> tensor" where
  "np_scalar dt v = Tensor dt [] [v]"

definition np_int64_array :: "int list \<Rightarrow> tensor" where
  "np_int64_array xs = Tensor INT64 [int (length xs)] (map of_int xs)"

definition np_zeros :: "dtype \<Rightarrow> int \<Rightarrow> tensor" where
  "np_zeros dt n = Tensor dt [n] (replicate (nat n) 0)"

datatype attr_value =
    AttrF real
  | AttrI int
  | AttrS string
  | AttrInts "int list"
  | AttrT tensor

text \<open>Reading a field of an attribute that holds another kind of value gives the
  protobuf default of that field.\<close>

fun attr_f :: "attr_value \<Rightarrow> real" where
  "attr_f (AttrF x) = x"
| "attr_f _ = 0"

fun attr_i :: "attr_value \<Rightarrow> int" where
  "attr_i (AttrI x) = x"
| "attr_i _ = 0"

fun attr_s :: "attr_value \<Rightarrow> string" where
  "attr_s (AttrS x) = x"
| "attr_s _ = []"

record node =
  name :: string
  op_type :: string
  inputs :: "string list"
  outputs :: "string list"
  attr :: "(string \<times> attr_value) list"

definition get_attr :: "node \<Rightarrow> string \<Rightarrow> attr_value option" where
  "get_attr nd k = map_of (attr nd) k"

datatype error =
    RuntimeError string
  | UnsupportedConfiguration string
  | ValueError
  | KeyError
  | IndexError
  | TypeError
  | AttributeError

text \<open>The calls that change the graph, in the order they were made. The log is
  bookkeeping for the ordering properties; no operation reads it.\<close>

datatype call =
    MakeNode node
  | MakeConst node
  | ReplaceAllInputs string string
  | CopyDtype string string
  | CopyShape string string
  | RemoveNode string

text \<open>
  The graph context. \<open>shapes\<close> and \<open>dtypes\<close> hold what is recorded for a value
  reference (\<open>None\<close>: nothing recorded). \<open>infer_dtype\<close> stands for the element-type
  inference that the context runs on a new primitive node (operator kind, the element
  types recorded so far, and the inputs of the node); it is a parameter of the model.
\<close>

record graph =
  nodes :: "node list"
  shapes :: "string \<Rightarrow> int list option"
  dtypes :: "string \<Rightarrow> dtype option"
  opset :: nat
  internal_name :: nat
  infer_dtype :: "string \<Rightarrow> (string \<Rightarrow> dtype option) \<Rightarrow> string list \<Rightarrow> dtype option"
  calls :: "call list"

section \<open>Graph context operations\<close>

text \<open>
  Modelled from the spec: the graph container (\<^verbatim>\<open>tf2onnx/graph.py\<close>) is not among the
  sources. The operations follow section 6 of the spec: create-node inserts a node and
  returns it, create-constant inserts a constant-producing node with zero inputs and one
  output, remove-node deletes by name, and the rewiring primitive replaces every occurrence
  of the old reference in every input list, in place.
\<close>

definition make_name :: "string \<Rightarrow> graph \<Rightarrow> string \<times> graph" where
  "make_name base ctx =
     (name_with_counter base (internal_name ctx),
      ctx\<lparr>internal_name := Suc (internal_name ctx)\<rparr>)"

definition get_shape :: "graph \<Rightarrow> string \<Rightarrow> int list option" where
  "get_shape ctx r = shapes ctx r"

definition get_dtype :: "graph \<Rightarrow> string \<Rightarrow> dtype option" where
  "get_dtype ctx r = dtypes ctx r"

definition add_node :: "node \<Rightarrow> graph \<Rightarrow> graph" where
  "add_node n ctx =
     ctx\<lparr>nodes := nodes ctx @ [n],
         dtypes := (\<lambda>r. if r \<in> set (outputs n)
                         then infer_dtype ctx (op_type n) (dtypes ctx) (inputs n)
                         else dtypes ctx r),
         calls := calls ctx @ [MakeNode n]\<rparr>"

text \<open>\<^verbatim>\<open>ctx.make_node(op, inputs, attr=..., output_count=k)\<close>.\<close>

definition make_node ::
  "string \<Rightarrow> string list \<Rightarrow> (string \<times> attr_value) list \<Rightarrow> nat \<Rightarrow> graph \<Rightarrow> node \<times> graph" where
  "make_node op ins attrs output_count ctx =
     (let (nm, c1) = make_name op ctx;
          n = \<lparr>name = nm, op_type = op, inputs = ins,
               outputs = map (port nm) [0..<output_count], attr = attrs\<rparr>
      in (n, add_node n c1))"

text \<open>\<^verbatim>\<open>ctx.make_node(op, inputs, outputs=[...], attr=...)\<close>: the caller chooses the
  output identities.\<close>

definition make_node_outputs ::
  "string \<Rightarrow> string list \<Rightarrow> string list \<Rightarrow> (string \<times> attr_value) list \<Rightarrow> graph \<Rightarrow> node \<times> graph" where
  "make_node_outputs op ins outs attrs ctx =
     (let (nm, c1) = make_name op ctx;
          n = \<lparr>name = nm, op_type = op, inputs = ins, outputs = outs, attr = attrs\<rparr>
      in (n, add_node n c1))"

definition make_const :: "string \<Rightarrow> tensor \<Rightarrow> graph \<Rightarrow> node \<times> graph" where
  "make_const nm t ctx =
     (let n = \<lparr>name = nm, op_type = ''Const'', inputs = [],
               outputs = [port nm 0], attr = [(''value'', AttrT t)]\<rparr>
      in (n, ctx\<lparr>nodes := nodes ctx @ [n],
                 shapes := (shapes ctx)(port nm 0 \<mapsto> t_shape t),
                 dtypes := (dtypes ctx)(port nm 0 \<mapsto> t_dtype t),
                 calls := calls ctx @ [MakeConst n]\<rparr>))"

definition replace_input :: "string \<Rightarrow> string \<Rightarrow> node \<Rightarrow> node" where
  "replace_input old_input new_input n =
     n\<lparr>inputs := map (\<lambda>r. if r = old_input then new_input else r) (inputs n)\<rparr>"

definition replace_all_inputs :: "string \<Rightarrow> string \<Rightarrow> graph \<Rightarrow> graph" where
  "replace_all_inputs old_input new_input ctx =
     ctx\<lparr>nodes := map (replace_input old_input new_input) (nodes ctx),
         calls := calls ctx @ [ReplaceAllInputs old_input new_input]\<rparr>"

definition copy_dtype :: "string \<Rightarrow> string \<Rightarrow> graph \<Rightarrow> graph" where
  "copy_dtype src dst ctx =
     ctx\<lparr>dtypes := (dtypes ctx)(dst := dtypes ctx src),
         calls := calls ctx @ [CopyDtype src dst]\<rparr>"

definition copy_shape :: "string \<Rightarrow> string \<Rightarrow> graph \<Rightarrow> graph" where
  "copy_shape src dst ctx =
     ctx\<lparr>shapes := (shapes ctx)(dst := shapes ctx src),
         calls := calls ctx @ [CopyShape src dst]\<rparr>"

definition remove_node :: "string \<Rightarrow> graph \<Rightarrow> graph" where
  "remove_node nm ctx =
     ctx\<lparr>nodes := filter (\<lambda>n. name n \<noteq> nm) (nodes ctx),
         calls := calls ctx @ [RemoveNode nm]\<rparr>"

section \<open>LSTMBlockCell.version_1\<close>

text \<open>The nested helper \<^verbatim>\<open>make_sigmoid(i, w, b)\<close>: \<open>Sigmoid(i * w + b)\<close>. The local
  list \<^verbatim>\<open>nodes\<close> of the source is appended to and never read; it is left out.\<close>

definition make_sigmoid :: "string \<Rightarrow> string \<Rightarrow> string \<Rightarrow> graph \<Rightarrow> string \<times> graph" where
  "make_sigmoid i w b ctx =
     (let (i_w_node, c1) = make_node ''Mul'' [i, w] [] 1 ctx;
          (i_w_b_node, c2) = make_node ''Add'' [outputs i_w_node ! 0, b] [] 1 c1;
          (output_node, c3) = make_node ''Sigmoid'' [outputs i_w_b_node ! 0] [] 1 c2
      in (outputs output_node ! 0, c3))"

text \<open>The nested helper \<^verbatim>\<open>replace_output(old_output, new_output)\<close>.\<close>

definition replace_output :: "string \<Rightarrow> string \<Rightarrow> graph \<Rightarrow> graph" where
  "replace_output old_output new_output ctx =
     copy_shape old_output new_output
       (copy_dtype old_output new_output
         (replace_all_inputs old_output new_output ctx))"

text \<open>The seven calls \<^verbatim>\<open>replace_output(node.output[k], v)\<close> at the end of the routine, in
  order; \<^verbatim>\<open>node.output[k]\<close> raises IndexError when the node has no output \<open>k\<close>.\<close>

fun replace_outputs :: "node \<Rightarrow> (nat \<times> string) list \<Rightarrow> graph \<Rightarrow> (error + unit) \<times> graph" where
  "replace_outputs nd [] ctx = (Inr (), ctx)"
| "replace_outputs nd ((k, new_output) # rest) ctx =
     (if k < length (outputs nd)
      then replace_outputs nd rest (replace_output (outputs nd ! k) new_output ctx)
      else (Inl IndexError, ctx))"

text \<open>The block \<^verbatim>\<open># cs = clip(cs)\<close>: the value reference of the cell state after the
  optional clamp. \<^verbatim>\<open>utils.map_onnx_to_numpy_type\<close> is a table lookup that raises KeyError
  when no element type is recorded.\<close>

definition clip_cs :: "node \<Rightarrow> real \<Rightarrow> string \<Rightarrow> graph \<Rightarrow> (error + string) \<times> graph" where
  "clip_cs nd cell_clip cs ctx =
     (if cell_clip > 0 then
        (if opset ctx < 11 then
           (let (cs_clip_node, c1) =
                  make_node ''Clip'' [cs]
                    [(''max'', AttrF cell_clip), (''min'', AttrF (- cell_clip))] 1 ctx
            in (Inr (outputs cs_clip_node ! 0), c1))
         else
           (case get_dtype ctx cs of
              None \<Rightarrow> (Inl KeyError, ctx)
            | Some dt \<Rightarrow>
               (let (name_min, c1) = make_name (name nd @ ''_min'') ctx;
                    (name_max, c2) = make_name (name nd @ ''_max'') c1;
                    (min_const, c3) = make_const name_min (np_scalar dt (- cell_clip)) c2;
                    (max_const, c4) = make_const name_max (np_scalar dt cell_clip) c3;
                    (cs_clip_node, c5) =
                       make_node ''Clip'' [cs, outputs min_const ! 0, outputs max_const ! 0] [] 1 c4
                in (Inr (outputs cs_clip_node ! 0), c5))))
      else (Inr cs, ctx))"

text \<open>Everything after the clamp: output gate, \<open>tanh\<close> of the cell state, hidden state,
  and the rewiring of the seven outputs.\<close>

definition lstm_finish ::
  "node \<Rightarrow> string \<Rightarrow> string \<Rightarrow> string \<Rightarrow> string \<Rightarrow> string \<Rightarrow> string \<Rightarrow> graph
     \<Rightarrow> (error + unit) \<times> graph" where
  "lstm_finish nd i cs f o0 wco ci_out ctx =
     (let (o', c1) = make_sigmoid cs wco o0 ctx;
          (co_node, c2) = make_node ''Tanh'' [cs] [] 1 c1;
          (h_node, c3) = make_node ''Mul'' [outputs co_node ! 0, o'] [] 1 c2
      in replace_outputs nd
           [(0, i), (1, cs), (2, f), (3, o'), (4, ci_out),
            (5, outputs co_node ! 0), (6, outputs h_node ! 0)] c3)"

text \<open>The body of the routine from the zero constant to the cell state.\<close>

definition lstm_gates ::
  "node \<Rightarrow> real \<Rightarrow> bool \<Rightarrow> int \<Rightarrow> string \<Rightarrow> string \<Rightarrow> string \<Rightarrow> string
     \<Rightarrow> string \<Rightarrow> string \<Rightarrow> string \<Rightarrow> string \<Rightarrow> graph \<Rightarrow> (error + unit) \<times> graph" where
  "lstm_gates nd cell_clip use_peephole w_last_dim cs_prev wci0 wcf0 wco0 i0 ci f_out o0 ctx =
     (let (wci, wcf, wco, c1) =
            (if \<not> use_peephole then
               (let (nm, ca) = make_name (name nd @ ''__zeros_const'') ctx;
                    (zeros_const, cb) = make_const nm (np_zeros FLOAT w_last_dim) ca
                in (outputs zeros_const ! 0, outputs zeros_const ! 0, outputs zeros_const ! 0, cb))
             else (wci0, wcf0, wco0, ctx));
          (i, c2) = make_sigmoid cs_prev wci i0 c1;
          (f, c3) = make_sigmoid cs_prev wcf f_out c2;
          (ci_node, c4) = make_node ''Tanh'' [ci] [] 1 c3;
          (ci_i_node, c5) = make_node ''Mul'' [outputs ci_node ! 0, i] [] 1 c4;
          (cs_prev_f_node, c6) = make_node ''Mul'' [cs_prev, f] [] 1 c5;
          (cs_node, c7) =
             make_node ''Add'' [outputs ci_i_node ! 0, outputs cs_prev_f_node ! 0] [] 1 c6
      in case clip_cs nd cell_clip (outputs cs_node ! 0) c7 of
           (Inl e, c8) \<Rightarrow> (Inl e, c8)
         | (Inr cs, c8) \<Rightarrow> lstm_finish nd i cs f o0 wco (outputs ci_node ! 0) c8)"

text \<open>
  The routine. Unpacking \<^verbatim>\<open>node.input\<close> into eight names raises ValueError on any other
  length; \<^verbatim>\<open>node.get_attr(k)\<close> is \<open>None\<close> for a missing attribute, and reading a field
  of it raises AttributeError; \<^verbatim>\<open>len(w_shape)\<close> raises TypeError when no shape is
  recorded; \<^verbatim>\<open>np.zeros\<close> raises ValueError on a negative length. After the
  divisibility check \<^verbatim>\<open>int(w_shape[1] / 4)\<close> is the exact quotient.
\<close>

definition version_1 :: "graph \<Rightarrow> node \<Rightarrow> (error + unit) \<times> graph" where
  "version_1 ctx nd =
     (case inputs nd of
        [x, cs_prev, h_prev, w, wci, wcf, wco, b] \<Rightarrow>
          (case (get_attr nd ''forget_bias'', get_attr nd ''cell_clip'',
                 get_attr nd ''use_peephole'') of
             (Some fb, Some cc, Some up) \<Rightarrow>
               (let forget_bias = attr_f fb;
                    cell_clip = attr_f cc;
                    use_peephole = (attr_i up \<noteq> 0);
                    (xh_node, c1) = make_node ''Concat'' [x, h_prev] [(''axis'', AttrI 1)] 1 ctx;
                    (xh_w_node, c2) = make_node ''MatMul'' [outputs xh_node ! 0, w] [] 1 c1
                in case get_shape c2 w of
                     None \<Rightarrow> (Inl TypeError, c2)
                   | Some w_shape \<Rightarrow>
                       if length w_shape \<noteq> 2 \<or> (w_shape ! 1) mod 4 \<noteq> 0
                       then (Inl (RuntimeError
                                (''shape of W of LSTMBlockCell '' @ name nd
                                   @ '' should be times of 4'')), c2)
                       else
                         (let (merged_output_node, c3) =
                                make_node ''Add'' [outputs xh_w_node ! 0, b] [] 1 c2;
                              w_last_dim = (w_shape ! 1) div 4;
                              split = replicate 4 w_last_dim;
                              (split_output_node, c4) =
                                make_node ''Split'' [outputs merged_output_node ! 0]
                                  [(''axis'', AttrI 1), (''split'', AttrInts split)] 4 c3;
                              i = outputs split_output_node ! 0;
                              ci = outputs split_output_node ! 1;
                              f = outputs split_output_node ! 2;
                              o0 = outputs split_output_node ! 3;
                              (nm, c5) = make_name (name nd @ ''__forget_bias'') c4;
                              (forget_bias_const, c6) =
                                make_const nm (np_scalar FLOAT forget_bias) c5;
                              (f_node, c7) =
                                make_node ''Add'' [f, outputs forget_bias_const ! 0] [] 1 c6
                          in if \<not> use_peephole \<and> w_last_dim < 0
                             then (Inl ValueError, snd (make_name (name nd @ ''__zeros_const'') c7))
                             else lstm_gates nd cell_clip use_peephole w_last_dim cs_prev
                                    wci wcf wco i ci (outputs f_node ! 0) o0 c7))
           | _ \<Rightarrow> (Inl AttributeError, ctx))
      | _ \<Rightarrow> (Inl ValueError, ctx))"

section \<open>CudnnRNN.version_11\<close>

text \<open>
  Modelled from the spec: \<^verbatim>\<open>utils.make_sure\<close> is not among the sources. An unmet
  condition fails with the unsupported-configuration error that carries the message it was
  given; it is given nothing else.
\<close>

definition make_sure :: "bool \<Rightarrow> string \<Rightarrow> error option" where
  "make_sure bool_val error_msg =
     (if bool_val then None else Some (UnsupportedConfiguration error_msg))"

text \<open>\<^verbatim>\<open>int(a / b)\<close> under true division, for a positive divisor: the quotient
  truncated toward zero (exact as long as the operands are exactly representable).\<close>

definition int_true_div :: "int \<Rightarrow> int \<Rightarrow> int" where
  "int_true_div a b = (if 0 \<le> a then a div b else - ((- a) div b))"

text \<open>The nested helper \<^verbatim>\<open>NM(nm)\<close>.\<close>

definition NM :: "node \<Rightarrow> string \<Rightarrow> string" where
  "NM nd nm = name nd @ ''_'' @ nm"

text \<open>\<^verbatim>\<open>[NM(base + '_' + str(i)) for i in range(k)]\<close>; an empty range for \<open>k \<le> 0\<close>.\<close>

definition NMS :: "node \<Rightarrow> string \<Rightarrow> int \<Rightarrow> string list" where
  "NMS nd base k = map (\<lambda>i. NM nd (base @ ''_'' @ str i)) [0..<nat k]"

text \<open>One pass of the loop \<^verbatim>\<open>for i in range(num_layers)\<close>; the loop state is
  \<open>(XNF, XNB, ctx)\<close>.\<close>

definition gru_layer ::
  "node \<Rightarrow> string \<Rightarrow> int \<Rightarrow> nat \<Rightarrow> string \<times> string \<times> graph \<Rightarrow> nat \<Rightarrow> string \<times> string \<times> graph" where
  "gru_layer nd X num_units num_dirs s i =
     (case s of (XNF, XNB, ctx) \<Rightarrow>
        (let suffix = ''_'' @ str (i * num_dirs);
             c1 = snd (make_node_outputs ''GRU''
                    [XNF, NM nd (''W'' @ suffix), NM nd (''R'' @ suffix), NM nd (''B'' @ suffix),
                     [], NM nd (''H'' @ suffix)]
                    [NM nd (''Y'' @ suffix), NM nd (''YH'' @ suffix)]
                    [(''direction'', AttrS ''forward''), (''hidden_size'', AttrI num_units)] ctx);
             XNF' = NM nd (X @ suffix);
             c2 = snd (make_node_outputs ''Squeeze'' [NM nd (''Y'' @ suffix)] [XNF']
                    [(''axes'', AttrInts [1])] c1)
         in if num_dirs = 2 then
              (let suffix = ''_'' @ str (i * 2 + 1);
                   c3 = snd (make_node_outputs ''GRU''
                          [XNB, NM nd (''W'' @ suffix), NM nd (''R'' @ suffix),
                           NM nd (''B'' @ suffix), [], NM nd (''H'' @ suffix)]
                          [NM nd (''Y'' @ suffix), NM nd (''YH'' @ suffix)]
                          [(''direction'', AttrS ''reverse''), (''hidden_size'', AttrI num_units)] c2);
                   XNB' = NM nd (X @ suffix);
                   c4 = snd (make_node_outputs ''Squeeze'' [NM nd (''Y'' @ suffix)] [XNB']
                          [(''axes'', AttrInts [1])] c3)
               in (XNF', XNB', c4))
            else (XNF', XNB, c2)))"

text \<open>The lines after the loop: the fused node is removed, then the two nodes that take
  over its output identities are created. \<^verbatim>\<open>node.output[k]\<close> raises IndexError when
  the node has no output \<open>k\<close>.\<close>

definition rnn_finish ::
  "node \<Rightarrow> nat \<Rightarrow> string list \<Rightarrow> string \<times> string \<times> graph \<Rightarrow> (error + unit) \<times> graph" where
  "rnn_finish nd num_dirs YHS s =
     (case s of (XNF, XNB, ctx) \<Rightarrow>
        (let c1 = remove_node (name nd) ctx
         in if length (outputs nd) < 1 then (Inl IndexError, c1)
            else
              (let c2 = (if num_dirs = 2
                         then snd (make_node_outputs ''Concat'' [XNF, XNB] [outputs nd ! 0]
                                     [(''axis'', AttrI (- 1))] c1)
                         else snd (make_node_outputs ''Identity'' [XNF] [outputs nd ! 0] [] c1))
               in if length (outputs nd) < 2 then (Inl IndexError, c2)
                  else (Inr (), snd (make_node_outputs ''Concat'' YHS [outputs nd ! 1]
                                       [(''axis'', AttrI 0)] c2)))))"

text \<open>The straight-line part between the attribute checks and the loop: shape constants,
  segment offsets, slices, reshapes and splits of the packed parameters.\<close>

definition rnn_unpack ::
  "node \<Rightarrow> string \<Rightarrow> string \<Rightarrow> int \<Rightarrow> int \<Rightarrow> int \<Rightarrow> int \<Rightarrow> graph \<Rightarrow> graph" where
  "rnn_unpack nd H P num_layers num_dirs hidden_size input_size ctx =
     (let w_shape = [num_layers * num_dirs, 3 * hidden_size, input_size];
          (nm1, c1) = make_name ''w_shape'' ctx;
          (w_shape_const, c2) = make_const nm1 (np_int64_array w_shape) c1;
          r_shape = [num_layers * num_dirs, 3 * hidden_size, hidden_size];
          (nm2, c3) = make_name ''r_shape'' c2;
          (r_shape_const, c4) = make_const nm2 (np_int64_array r_shape) c3;
          b_shape = [num_layers * num_dirs, 6 * hidden_size];
          (nm3, c5) = make_name ''b_shape'' c4;
          (b_shape_const, c6) = make_const nm3 (np_int64_array b_shape) c5;
          (nm4, c7) = make_name ''zero'' c6;
          (zero_const, c8) = make_const nm4 (np_int64_array [0]) c7;
          w_end = prod_list w_shape;
          (nm5, c9) = make_name ''w_end'' c8;
          (w_end_const, c10) = make_const nm5 (np_int64_array [w_end]) c9;
          r_end = w_end + prod_list r_shape;
          (nm6, c11) = make_name ''r_end'' c10;
          (r_end_const, c12) = make_const nm6 (np_int64_array [r_end]) c11;
          b_end = r_end + prod_list b_shape;
          (nm7, c13) = make_name ''b_end'' c12;
          (b_end_const, c14) = make_const nm7 (np_int64_array [b_end]) c13;
          WS = NMS nd ''W'' (num_layers * num_dirs);
          RS = NMS nd ''R'' (num_layers * num_dirs);
          BS = NMS nd ''B'' (num_layers * num_dirs);
          HS = NMS nd ''H'' (num_layers * num_dirs);
          (W_flattened, c15) =
             make_node ''Slice'' [P, outputs zero_const ! 0, outputs w_end_const ! 0] [] 1 c14;
          (R_flattened, c16) =
             make_node ''Slice'' [P, outputs w_end_const ! 0, outputs r_end_const ! 0] [] 1 c15;
          (B_flattened, c17) =
             make_node ''Slice'' [P, outputs r_end_const ! 0, outputs b_end_const ! 0] [] 1 c16;
          (W, c18) = make_name ''W'' c17;
          (R, c19) = make_name ''R'' c18;
          (B, c20) = make_name ''B'' c19;
          c21 = snd (make_node_outputs ''Reshape''
                  [outputs W_flattened ! 0, outputs w_shape_const ! 0] [W] [] c20);
          c22 = snd (make_node_outputs ''Reshape''
                  [outputs R_flattened ! 0, outputs r_shape_const ! 0] [R] [] c21);
          c23 = snd (make_node_outputs ''Reshape''
                  [outputs B_flattened ! 0, outputs b_shape_const ! 0] [B] [] c22);
          c24 = snd (make_node_outputs ''Split'' [W] WS [] c23);
          c25 = snd (make_node_outputs ''Split'' [R] RS [] c24);
          c26 = snd (make_node_outputs ''Split'' [B] BS [] c25)
      in snd (make_node_outputs ''Split'' [H] HS [] c26))"

text \<open>
  The routine. \<^verbatim>\<open>node.input[k]\<close> raises IndexError and \<^verbatim>\<open>node.attr[k]\<close> raises KeyError
  when the entry is missing; subscripting a shape that is not recorded raises TypeError,
  and a shape that is too short raises IndexError.
\<close>

definition version_11 :: "graph \<Rightarrow> node \<Rightarrow> (error + unit) \<times> graph" where
  "version_11 ctx nd =
     (if length (inputs nd) < 4 then (Inl IndexError, ctx)
      else
        (let X = inputs nd ! 0;
             X_shape = get_shape ctx X;
             H = inputs nd ! 1;
             H_shape = get_shape ctx H;
             P = inputs nd ! 3
         in case get_attr nd ''rnn_mode'' of
              None \<Rightarrow> (Inl KeyError, ctx)
            | Some rnn_mode \<Rightarrow>
          (case make_sure (attr_s rnn_mode = ''gru'')
                  ''rnn mode other than gru are not supported yet'' of
             Some e \<Rightarrow> (Inl e, ctx)
           | None \<Rightarrow>
          (case get_attr nd ''dropout'' of
             None \<Rightarrow> (Inl KeyError, ctx)
           | Some dropout \<Rightarrow>
          (case make_sure (attr_f dropout = 0) ''dropout not supported yet'' of
             Some e \<Rightarrow> (Inl e, ctx)
           | None \<Rightarrow>
          (case get_attr nd ''input_mode'' of
             None \<Rightarrow> (Inl KeyError, ctx)
           | Some input_mode \<Rightarrow>
          (case make_sure (attr_s input_mode = ''linear_input'')
                  ''input mode must be linear input'' of
             Some e \<Rightarrow> (Inl e, ctx)
           | None \<Rightarrow>
          (case get_attr nd ''direction'' of
             None \<Rightarrow> (Inl KeyError, ctx)
           | Some direction \<Rightarrow>
          (let num_dirs = (if attr_s direction = ''unidirectional'' then 1 else 2 :: nat)
           in case H_shape of
                None \<Rightarrow> (Inl TypeError, ctx)
              | Some hs \<Rightarrow>
                  if length hs < 3 then (Inl IndexError, ctx)
                  else
                    (let num_layers = int_true_div (hs ! 0) (int num_dirs);
                         hidden_size = hs ! 2
                     in case X_shape of
                          None \<Rightarrow> (Inl TypeError, ctx)
                        | Some xs \<Rightarrow>
                            if length xs < 3 then (Inl IndexError, ctx)
                            else
                              (let input_size = xs ! 2;
                                   c1 = rnn_unpack nd H P num_layers (int num_dirs)
                                          hidden_size input_size ctx;
                                   YHS = NMS nd ''YH'' (num_layers * int num_dirs);
                                   s = foldl (gru_layer nd X hidden_size num_dirs) (X, X, c1)
                                         [0..<nat num_layers]
                               in rnn_finish nd num_dirs YHS s)))))))))))"

section \<open>Evaluating a lowered subgraph\<close>

text \<open>
  Modelled from the spec: the meaning of the primitive operators belongs to the target
  instruction set, not to the sources. It is a parameter: any interpretation \<open>P\<close> of
  concatenate, matrix multiply, elementwise add and multiply, split, the two activations,
  the symmetric clamp and constants, over any type of tensor values.
\<close>

record 'v prims =
  p_concat :: "int \<Rightarrow> 'v list \<Rightarrow> 'v"
  p_matmul :: "'v \<Rightarrow> 'v \<Rightarrow> 'v"
  p_add :: "'v \<Rightarrow> 'v \<Rightarrow> 'v"
  p_mul :: "'v \<Rightarrow> 'v \<Rightarrow> 'v"
  p_split :: "int \<Rightarrow> int list \<Rightarrow> 'v \<Rightarrow> nat \<Rightarrow> 'v"
  p_sigmoid :: "'v \<Rightarrow> 'v"
  p_tanh :: "'v \<Rightarrow> 'v"
  p_clamp :: "real \<Rightarrow> real \<Rightarrow> 'v \<Rightarrow> 'v"
  p_const :: "tensor \<Rightarrow> 'v"

text \<open>
  Modelled from the spec (section 4.1): the clamp primitive has two representations. With
  one input its bounds are the node attributes \<open>min\<close> and \<open>max\<close>; with three inputs
  they are the scalar constants bound to the second and third input. \<open>K\<close> maps a value
  reference to the constant tensor that produces it.
\<close>

definition clip_bounds :: "(string \<Rightarrow> tensor option) \<Rightarrow> node \<Rightarrow> (real \<times> real) option" where
  "clip_bounds K n =
     (case inputs n of
        [x] \<Rightarrow>
          (case (get_attr n ''min'', get_attr n ''max'') of
             (Some (AttrF lo), Some (AttrF hi)) \<Rightarrow> Some (lo, hi)
           | _ \<Rightarrow> None)
      | [x, lo_ref, hi_ref] \<Rightarrow>
          (case (K lo_ref, K hi_ref) of
             (Some (Tensor dl [] [lo]), Some (Tensor dh [] [hi])) \<Rightarrow> Some (lo, hi)
           | _ \<Rightarrow> None)
      | _ \<Rightarrow> None)"

definition exec_node ::
  "'v prims \<Rightarrow> (string \<Rightarrow> tensor option) \<Rightarrow> node \<Rightarrow> 'v list \<Rightarrow> 'v list option" where
  "exec_node P K n vs =
     (if op_type n = ''Concat'' then
        (case get_attr n ''axis'' of Some (AttrI a) \<Rightarrow> Some [p_concat P a vs] | _ \<Rightarrow> None)
      else if op_type n = ''MatMul'' then
        (case vs of [a, b] \<Rightarrow> Some [p_matmul P a b] | _ \<Rightarrow> None)
      else if op_type n = ''Add'' then
        (case vs of [a, b] \<Rightarrow> Some [p_add P a b] | _ \<Rightarrow> None)
      else if op_type n = ''Mul'' then
        (case vs of [a, b] \<Rightarrow> Some [p_mul P a b] | _ \<Rightarrow> None)
      else if op_type n = ''Split'' then
        (case (get_attr n ''axis'', get_attr n ''split'', vs) of
           (Some (AttrI a), Some (AttrInts s), [v]) \<Rightarrow>
              Some (map (p_split P a s v) [0..<length (outputs n)])
         | _ \<Rightarrow> None)
      else if op_type n = ''Sigmoid'' then
        (case vs of [a] \<Rightarrow> Some [p_sigmoid P a] | _ \<Rightarrow> None)
      else if op_type n = ''Tanh'' then
        (case vs of [a] \<Rightarrow> Some [p_tanh P a] | _ \<Rightarrow> None)
      else if op_type n = ''Clip'' then
        (case (clip_bounds K n, vs) of
           (Some (lo, hi), v # rest) \<Rightarrow> Some [p_clamp P lo hi v]
         | _ \<Rightarrow> None)
      else None)"

definition bind_outputs ::
  "(string \<Rightarrow> 'v option) \<Rightarrow> string list \<Rightarrow> 'v list \<Rightarrow> (string \<Rightarrow> 'v option)" where
  "bind_outputs E rs vs = fold (\<lambda>(r, v) E'. E'(r \<mapsto> v)) (zip rs vs) E"

text \<open>Running a list of nodes in order, as a runtime does on a topologically sorted
  graph. The state is the constants seen so far and the environment of computed values;
  a node whose input has no value, or an operator that does not apply, gives \<open>None\<close>.\<close>

fun run ::
  "'v prims \<Rightarrow> node list \<Rightarrow> (string \<Rightarrow> tensor option) \<times> (string \<Rightarrow> 'v option)
     \<Rightarrow> ((string \<Rightarrow> tensor option) \<times> (string \<Rightarrow> 'v option)) option" where
  "run P [] s = Some s"
| "run P (n # ns) (K, E) =
     (if op_type n = ''Const'' then
        (case (get_attr n ''value'', outputs n) of
           (Some (AttrT t), [r]) \<Rightarrow> run P ns (K(r \<mapsto> t), E(r \<mapsto> p_const P t))
         | _ \<Rightarrow> None)
      else
        (case those (map E (inputs n)) of
           None \<Rightarrow> None
         | Some vs \<Rightarrow>
            (case exec_node P K n vs of
               None \<Rightarrow> None
             | Some rs \<Rightarrow>
                 if length rs = length (outputs n)
                 then run P ns (K, bind_outputs E (outputs n) rs)
                 else None)))"

text \<open>What a lowering added to the graph, and the rewiring calls it made, in order.\<close>

definition new_nodes :: "graph \<Rightarrow> graph \<Rightarrow> node list" where
  "new_nodes ctx ctx' = drop (length (nodes ctx)) (nodes ctx')"

definition new_calls :: "graph \<Rightarrow> graph \<Rightarrow> call list" where
  "new_calls ctx ctx' = drop (length (calls ctx)) (calls ctx')"

fun rewired :: "call list \<Rightarrow> (string \<times> string) list" where
  "rewired [] = []"
| "rewired (ReplaceAllInputs a b # cs) = (a, b) # rewired cs"
| "rewired (c # cs) = rewired cs"

fun created :: "call list \<Rightarrow> node list" where
  "created [] = []"
| "created (MakeNode n # cs) = n # created cs"
| "created (MakeConst n # cs) = n # created cs"
| "created (c # cs) = created cs"

fun removed :: "call list \<Rightarrow> string list" where
  "removed [] = []"
| "removed (RemoveNode nm # cs) = nm # removed cs"
| "removed (c # cs) = removed cs"

definition lstm_rewired :: "graph \<Rightarrow> node \<Rightarrow> (string \<times> string) list" where
  "lstm_rewired ctx nd = rewired (new_calls ctx (snd (version_1 ctx nd)))"

text \<open>The value that the lowered subgraph computes for the reference rewired onto output
  \<open>k\<close> of the fused node, when the subgraph runs in the environment \<open>E\<close>.\<close>

definition lstm_output_value ::
  "'v prims \<Rightarrow> graph \<Rightarrow> node \<Rightarrow> (string \<Rightarrow> tensor option) \<Rightarrow> (string \<Rightarrow> 'v option) \<Rightarrow> nat
     \<Rightarrow> 'v option" where
  "lstm_output_value P ctx nd K E k =
     (case run P (new_nodes ctx (snd (version_1 ctx nd))) (K, E) of
        None \<Rightarrow> None
      | Some (K', E') \<Rightarrow>
          if k < length (lstm_rewired ctx nd) then E' (snd (lstm_rewired ctx nd ! k)) else None)"

section \<open>The closed-form equations of the gated cell\<close>

text \<open>
  This definition follows the words of the spec (section 4.1), not the code: the cell
  state before the clamp, then the seven outputs in the order in_gate, cell_state, forget,
  out_gate, cell_input, cell_tanh, hidden.
\<close>

definition spec_peephole :: "'v prims \<Rightarrow> bool \<Rightarrow> int \<Rightarrow> 'v \<Rightarrow> 'v" where
  "spec_peephole P peephole hidden_size weight =
     (if peephole then weight else p_const P (np_zeros FLOAT hidden_size))"

definition spec_gate_pre :: "'v prims \<Rightarrow> int \<Rightarrow> 'v \<Rightarrow> 'v \<Rightarrow> 'v \<Rightarrow> 'v \<Rightarrow> nat \<Rightarrow> 'v" where
  "spec_gate_pre P hidden_size inp previous_hidden weight bias j =
     (let concat = p_concat P 1 [inp, previous_hidden];
          gates = p_add P (p_matmul P concat weight) bias
      in p_split P 1 (replicate 4 hidden_size) gates j)"

definition spec_in_gate ::
  "'v prims \<Rightarrow> bool \<Rightarrow> int \<Rightarrow> 'v \<Rightarrow> 'v \<Rightarrow> 'v \<Rightarrow> 'v \<Rightarrow> 'v \<Rightarrow> 'v \<Rightarrow> 'v" where
  "spec_in_gate P peephole hidden_size inp previous_cell previous_hidden weight wci bias =
     p_sigmoid P (p_add P (p_mul P previous_cell (spec_peephole P peephole hidden_size wci))
                    (spec_gate_pre P hidden_size inp previous_hidden weight bias 0))"

definition spec_forget ::
  "'v prims \<Rightarrow> real \<Rightarrow> bool \<Rightarrow> int \<Rightarrow> 'v \<Rightarrow> 'v \<Rightarrow> 'v \<Rightarrow> 'v \<Rightarrow> 'v \<Rightarrow> 'v \<Rightarrow> 'v" where
  "spec_forget P forget_bias_offset peephole hidden_size inp previous_cell previous_hidden
       weight wcf bias =
     (let forget_pre' = p_add P (spec_gate_pre P hidden_size inp previous_hidden weight bias 2)
                          (p_const P (np_scalar FLOAT forget_bias_offset))
      in p_sigmoid P (p_add P (p_mul P previous_cell (spec_peephole P peephole hidden_size wcf))
                        forget_pre'))"

definition spec_cell_input :: "'v prims \<Rightarrow> int \<Rightarrow> 'v \<Rightarrow> 'v \<Rightarrow> 'v \<Rightarrow> 'v \<Rightarrow> 'v" where
  "spec_cell_input P hidden_size inp previous_hidden weight bias =
     p_tanh P (spec_gate_pre P hidden_size inp previous_hidden weight bias 1)"

definition spec_cell_state_unclamped ::
  "'v prims \<Rightarrow> real \<Rightarrow> bool \<Rightarrow> int \<Rightarrow> 'v \<Rightarrow> 'v \<Rightarrow> 'v \<Rightarrow> 'v \<Rightarrow> 'v \<Rightarrow> 'v \<Rightarrow> 'v \<Rightarrow> 'v" where
  "spec_cell_state_unclamped P forget_bias_offset peephole hidden_size inp previous_cell
       previous_hidden weight wci wcf bias =
     p_add P
       (p_mul P (spec_cell_input P hidden_size inp previous_hidden weight bias)
          (spec_in_gate P peephole hidden_size inp previous_cell previous_hidden weight wci bias))
       (p_mul P previous_cell
          (spec_forget P forget_bias_offset peephole hidden_size inp previous_cell
             previous_hidden weight wcf bias))"

definition lstm_equations ::
  "'v prims \<Rightarrow> real \<Rightarrow> real \<Rightarrow> bool \<Rightarrow> int \<Rightarrow> 'v \<Rightarrow> 'v \<Rightarrow> 'v \<Rightarrow> 'v \<Rightarrow> 'v \<Rightarrow> 'v \<Rightarrow> 'v \<Rightarrow> 'v
     \<Rightarrow> 'v list" where
  "lstm_equations P forget_bias_offset clamp_bound peephole hidden_size
       inp previous_cell previous_hidden weight wci wcf wco bias =
     (let in_gate = spec_in_gate P peephole hidden_size inp previous_cell previous_hidden
                      weight wci bias;
          forget = spec_forget P forget_bias_offset peephole hidden_size inp previous_cell
                     previous_hidden weight wcf bias;
          cell_input = spec_cell_input P hidden_size inp previous_hidden weight bias;
          cell_state0 = spec_cell_state_unclamped P forget_bias_offset peephole hidden_size
                          inp previous_cell previous_hidden weight wci wcf bias;
          cell_state = (if clamp_bound > 0
                        then p_clamp P (- clamp_bound) clamp_bound cell_state0
                        else cell_state0);
          out_gate = p_sigmoid P
                       (p_add P (p_mul P cell_state (spec_peephole P peephole hidden_size wco))
                          (spec_gate_pre P hidden_size inp previous_hidden weight bias 3));
          cell_tanh = p_tanh P cell_state;
          hidden = p_mul P cell_tanh out_gate
      in [in_gate, cell_state, forget, out_gate, cell_input, cell_tanh, hidden])"

text \<open>The attributes and input tensors of a fused node, read in the order the spec
  declares them: current input, previous cell state, previous hidden state, packed
  weight, the three peephole weights, bias.\<close>

definition forget_bias_of :: "node \<Rightarrow> real" where
  "forget_bias_of nd = attr_f (the (get_attr nd ''forget_bias''))"

definition cell_clip_of :: "node \<Rightarrow> real" where
  "cell_clip_of nd = attr_f (the (get_attr nd ''cell_clip''))"

definition use_peephole_of :: "node \<Rightarrow> bool" where
  "use_peephole_of nd = (attr_i (the (get_attr nd ''use_peephole'')) \<noteq> 0)"

definition hidden_width :: "graph \<Rightarrow> node \<Rightarrow> int" where
  "hidden_width ctx nd = (the (get_shape ctx (inputs nd ! 3)) ! 1) div 4"

definition input_value :: "(string \<Rightarrow> 'v option) \<Rightarrow> node \<Rightarrow> nat \<Rightarrow> 'v" where
  "input_value E nd j = the (E (inputs nd ! j))"

definition lstm_reference :: "'v prims \<Rightarrow> graph \<Rightarrow> node \<Rightarrow> (string \<Rightarrow> 'v option) \<Rightarrow> 'v list" where
  "lstm_reference P ctx nd E =
     lstm_equations P (forget_bias_of nd) (cell_clip_of nd) (use_peephole_of nd)
       (hidden_width ctx nd)
       (input_value E nd 0) (input_value E nd 1) (input_value E nd 2) (input_value E nd 3)
       (input_value E nd 4) (input_value E nd 5) (input_value E nd 6) (input_value E nd 7)"

text \<open>
  A valid invocation of the gated-cell lowering: eight inputs and seven outputs, the three
  attributes present, a recorded two-dimensional weight shape whose trailing dimension is
  divisible by 4 (and not negative when the zero vector has to be built), no input that is
  also an output of the node, no name of the node that the fresh-name supply may still
  issue, and, where the clamp bounds become constants, an element type inferred for the
  sum that is the cell state.
\<close>

definition lstm_valid :: "graph \<Rightarrow> node \<Rightarrow> bool" where
  "lstm_valid ctx nd =
     (length (inputs nd) = 8 \<and> length (outputs nd) = 7 \<and>
      get_attr nd ''forget_bias'' \<noteq> None \<and> get_attr nd ''cell_clip'' \<noteq> None \<and>
      get_attr nd ''use_peephole'' \<noteq> None \<and>
      (case get_shape ctx (inputs nd ! 3) of
         Some [d0, d1] \<Rightarrow> d1 mod 4 = 0 \<and> (use_peephole_of nd \<or> 0 \<le> d1)
       | _ \<Rightarrow> False) \<and>
      (\<forall>r\<in>set (inputs nd @ outputs nd). \<not> is_internal (internal_name ctx) r) \<and>
      set (inputs nd) \<inter> set (outputs nd) = {} \<and>
      (0 < cell_clip_of nd \<and> 11 \<le> opset ctx \<longrightarrow>
         (\<forall>D ins. infer_dtype ctx ''Add'' D ins \<noteq> None)))"

section \<open>The subgraph of the gated cell, written out\<close>

text \<open>
  The nodes that \<open>version_1\<close> is shown below to add, in creation order, when the
  fresh-name counter stands at \<open>n\<close>: a node with one output, the reference to that
  output, the three nodes of \<open>make_sigmoid\<close>, a constant node, and the segments of
  the routine.
\<close>

definition op1 :: "string \<Rightarrow> nat \<Rightarrow> string list \<Rightarrow> (string \<times> attr_value) list \<Rightarrow> node" where
  "op1 op k ins attrs =
     \<lparr>name = name_with_counter op k, op_type = op, inputs = ins,
      outputs = [port (name_with_counter op k) 0], attr = attrs\<rparr>"

definition out1 :: "string \<Rightarrow> nat \<Rightarrow> string" where
  "out1 op k = port (name_with_counter op k) 0"

definition const_node :: "string \<Rightarrow> tensor \<Rightarrow> node" where
  "const_node nm t =
     \<lparr>name = nm, op_type = ''Const'', inputs = [], outputs = [port nm 0],
      attr = [(''value'', AttrT t)]\<rparr>"

definition sigmoid_nodes :: "nat \<Rightarrow> string \<Rightarrow> string \<Rightarrow> string \<Rightarrow> node list" where
  "sigmoid_nodes k i w b =
     [op1 ''Mul'' k [i, w] [],
      op1 ''Add'' (k + 1) [out1 ''Mul'' k, b] [],
      op1 ''Sigmoid'' (k + 2) [out1 ''Add'' (k + 1)] []]"

definition split_node :: "nat \<Rightarrow> string \<Rightarrow> int \<Rightarrow> node" where
  "split_node k r w_last_dim =
     \<lparr>name = name_with_counter ''Split'' k, op_type = ''Split'', inputs = [r],
      outputs = map (port (name_with_counter ''Split'' k)) [0, 1, 2, 3],
      attr = [(''axis'', AttrI 1), (''split'', AttrInts (replicate 4 w_last_dim))]\<rparr>"

definition split_out :: "nat \<Rightarrow> nat \<Rightarrow> string" where
  "split_out k j = port (name_with_counter ''Split'' k) j"

definition forget_bias_name :: "node \<Rightarrow> nat \<Rightarrow> string" where
  "forget_bias_name nd k = name_with_counter (name nd @ ''__forget_bias'') k"

definition zeros_name :: "node \<Rightarrow> nat \<Rightarrow> string" where
  "zeros_name nd k = name_with_counter (name nd @ ''__zeros_const'') k"

definition min_name :: "node \<Rightarrow> nat \<Rightarrow> string" where
  "min_name nd k = name_with_counter (name nd @ ''_min'') k"

definition max_name :: "node \<Rightarrow> nat \<Rightarrow> string" where
  "max_name nd k = name_with_counter (name nd @ ''_max'') k"

definition lstm_head ::
  "node \<Rightarrow> nat \<Rightarrow> real \<Rightarrow> int \<Rightarrow> string \<Rightarrow> string \<Rightarrow> string \<Rightarrow> string \<Rightarrow> node list" where
  "lstm_head nd n forget_bias w_last_dim x h_prev w b =
     [op1 ''Concat'' n [x, h_prev] [(''axis'', AttrI 1)],
      op1 ''MatMul'' (n + 1) [out1 ''Concat'' n, w] [],
      op1 ''Add'' (n + 2) [out1 ''MatMul'' (n + 1), b] [],
      split_node (n + 3) (out1 ''Add'' (n + 2)) w_last_dim,
      const_node (forget_bias_name nd (n + 4)) (np_scalar FLOAT forget_bias),
      op1 ''Add'' (n + 5) [split_out (n + 3) 2, port (forget_bias_name nd (n + 4)) 0] []]"

definition lstm_mid :: "nat \<Rightarrow> nat \<Rightarrow> string \<Rightarrow> string \<Rightarrow> string \<Rightarrow> node list" where
  "lstm_mid n k cs_prev wci wcf =
     sigmoid_nodes k cs_prev wci (split_out (n + 3) 0) @
     sigmoid_nodes (k + 3) cs_prev wcf (out1 ''Add'' (n + 5)) @
     [op1 ''Tanh'' (k + 6) [split_out (n + 3) 1] [],
      op1 ''Mul'' (k + 7) [out1 ''Tanh'' (k + 6), out1 ''Sigmoid'' (k + 2)] [],
      op1 ''Mul'' (k + 8) [cs_prev, out1 ''Sigmoid'' (k + 5)] [],
      op1 ''Add'' (k + 9) [out1 ''Mul'' (k + 7), out1 ''Mul'' (k + 8)] []]"

definition lstm_clip_attr :: "nat \<Rightarrow> real \<Rightarrow> string \<Rightarrow> node list" where
  "lstm_clip_attr m cell_clip cs =
     [op1 ''Clip'' m [cs] [(''max'', AttrF cell_clip), (''min'', AttrF (- cell_clip))]]"

definition lstm_clip_inputs :: "node \<Rightarrow> nat \<Rightarrow> real \<Rightarrow> dtype \<Rightarrow> string \<Rightarrow> node list" where
  "lstm_clip_inputs nd m cell_clip dt cs =
     [const_node (min_name nd m) (np_scalar dt (- cell_clip)),
      const_node (max_name nd (m + 1)) (np_scalar dt cell_clip),
      op1 ''Clip'' (m + 2) [cs, port (min_name nd m) 0, port (max_name nd (m + 1)) 0] []]"

definition lstm_tail :: "nat \<Rightarrow> nat \<Rightarrow> string \<Rightarrow> string \<Rightarrow> node list" where
  "lstm_tail n t cs wco =
     sigmoid_nodes t cs wco (split_out (n + 3) 3) @
     [op1 ''Tanh'' (t + 3) [cs] [],
      op1 ''Mul'' (t + 4) [out1 ''Tanh'' (t + 3), out1 ''Sigmoid'' (t + 2)] []]"

text \<open>The seven references that take over the outputs of the fused node, given where the
  middle segment (\<open>k\<close>) and the last segment (\<open>t\<close>) start and the reference \<open>cs\<close> of
  the cell state after the optional clamp.\<close>

definition lstm_refs :: "nat \<Rightarrow> nat \<Rightarrow> string \<Rightarrow> string list" where
  "lstm_refs k t cs =
     [out1 ''Sigmoid'' (k + 2), cs, out1 ''Sigmoid'' (k + 5), out1 ''Sigmoid'' (t + 2),
      out1 ''Tanh'' (k + 6), out1 ''Tanh'' (t + 3), out1 ''Mul'' (t + 4)]"

definition lstm_k :: "nat \<Rightarrow> bool \<Rightarrow> nat" where
  "lstm_k n use_peephole = (if use_peephole then n + 6 else n + 7)"

definition lstm_t :: "nat \<Rightarrow> real \<Rightarrow> nat \<Rightarrow> nat" where
  "lstm_t k cell_clip ops =
     (if cell_clip > 0 then (if ops < 11 then k + 11 else k + 13) else k + 10)"

definition lstm_cs :: "nat \<Rightarrow> real \<Rightarrow> nat \<Rightarrow> string" where
  "lstm_cs k cell_clip ops =
     (if cell_clip > 0
      then (if ops < 11 then out1 ''Clip'' (k + 10) else out1 ''Clip'' (k + 12))
      else out1 ''Add'' (k + 9))"

definition lstm_subgraph ::
  "node \<Rightarrow> nat \<Rightarrow> nat \<Rightarrow> dtype \<Rightarrow> int \<Rightarrow> node list" where
  "lstm_subgraph nd n ops dt w_last_dim =
     (let peephole = use_peephole_of nd;
          cell_clip = cell_clip_of nd;
          k = lstm_k n peephole;
          t = lstm_t k cell_clip ops;
          zeros = port (zeros_name nd (n + 6)) 0;
          wci = (if peephole then inputs nd ! 4 else zeros);
          wcf = (if peephole then inputs nd ! 5 else zeros);
          wco = (if peephole then inputs nd ! 6 else zeros)
      in lstm_head nd n (forget_bias_of nd) w_last_dim
           (inputs nd ! 0) (inputs nd ! 2) (inputs nd ! 3) (inputs nd ! 7) @
         (if peephole then []
          else [const_node (zeros_name nd (n + 6)) (np_zeros FLOAT w_last_dim)]) @
         lstm_mid n k (inputs nd ! 1) wci wcf @
         (if cell_clip > 0
          then (if ops < 11 then lstm_clip_attr (k + 10) cell_clip (out1 ''Add'' (k + 9))
                else lstm_clip_inputs nd (k + 10) cell_clip dt (out1 ''Add'' (k + 9)))
          else []) @
         lstm_tail n t (lstm_cs k cell_clip ops) wco)"

definition lstm_new_refs :: "node \<Rightarrow> nat \<Rightarrow> nat \<Rightarrow> string list" where
  "lstm_new_refs nd n ops =
     (let k = lstm_k n (use_peephole_of nd);
          t = lstm_t k (cell_clip_of nd) ops
      in lstm_refs k t (lstm_cs k (cell_clip_of nd) ops))"

definition call_of :: "node \<Rightarrow> call" where
  "call_of n = (if op_type n = ''Const'' then MakeConst n else MakeNode n)"

definition rewire_calls :: "(string \<times> string) list \<Rightarrow> call list" where
  "rewire_calls ps =
     concat (map (\<lambda>(a, b). [ReplaceAllInputs a b, CopyDtype a b, CopyShape a b]) ps)"

text \<open>Symmetric clamp of every element, on tensors given as their list of elements.\<close>

definition clamp_elems :: "real \<Rightarrow> real \<Rightarrow> real list \<Rightarrow> real list" where
  "clamp_elems lo hi xs = map (\<lambda>x. min hi (max lo x)) xs"

section \<open>Example invocations\<close>

text \<open>A small graph context with recorded shapes for two weight matrices, a sequence
  input and two initial-state tensors, a gated cell over a chosen weight, and a recurrent
  network node with a chosen name, mode, direction and initial state.\<close>

definition example_graph :: graph where
  "example_graph =
     \<lparr>nodes = [],
      shapes = map_of [(''w'', [3, 8]), (''w_bad'', [3, 6]), (''X'', [5, 1, 2]),
                       (''H3'', [3, 1, 4]), (''H4'', [4, 1, 4])],
      dtypes = (\<lambda>r. Some FLOAT),
      opset = 11,
      internal_name = 0,
      infer_dtype = (\<lambda>op D ins. Some FLOAT),
      calls = []\<rparr>"

definition example_cell :: "string \<Rightarrow> real \<Rightarrow> int \<Rightarrow> node" where
  "example_cell w cell_clip use_peephole =
     \<lparr>name = ''cell'', op_type = ''LSTMBlockCell'',
      inputs = [''x'', ''cs_prev'', ''h_prev'', w, ''wci'', ''wcf'', ''wco'', ''b''],
      outputs = [''i'', ''cs'', ''f'', ''o'', ''ci'', ''co'', ''h''],
      attr = [(''forget_bias'', AttrF 1), (''cell_clip'', AttrF cell_clip),
              (''use_peephole'', AttrI use_peephole)]\<rparr>"

definition example_rnn :: "string \<Rightarrow> string \<Rightarrow> string \<Rightarrow> string \<Rightarrow> node" where
  "example_rnn nm rnn_mode direction H =
     \<lparr>name = nm, op_type = ''CudnnRNN'',
      inputs = [''X'', H, ''C'', ''P''],
      outputs = [nm @ '':0'', nm @ '':1''],
      attr = [(''rnn_mode'', AttrS rnn_mode), (''dropout'', AttrF 0),
              (''input_mode'', AttrS ''linear_input''), (''direction'', AttrS direction)]\<rparr>"

section \<open>Facts about names\<close>

lemma digit_cases:
  "d < 10 \<Longrightarrow> d = 0 \<or> d = 1 \<or> d = 2 \<or> d = 3 \<or> d = 4 \<or> d = 5 \<or> d = 6 \<or> d = 7 \<or> d = 8 \<or> d = (9::nat)"
  by arith

lemma digit_val_nth: "d < 10 \<Longrightarrow> digit_val (''0123456789'' ! d) = d"
  using digit_cases [of d] by (auto simp: digit_val_def)

lemma is_digit_nth: "d < 10 \<Longrightarrow> is_digit (''0123456789'' ! d)"
  using digit_cases [of d] by (auto simp: is_digit_def)

lemma str_digits: "c \<in> set (str n) \<Longrightarrow> is_digit c"
proof (induction n rule: str.induct)
  case (1 n)
  show ?case
  proof (cases "n < 10")
    case True
    with "1.prems" show ?thesis by (simp add: str.simps [of n] is_digit_nth)
  next
    case False
    with "1.prems" "1.IH" show ?thesis
      by (auto simp: str.simps [of n] is_digit_nth)
  qed
qed

lemma str_nonempty: "str n \<noteq> []"
  by (simp add: str.simps [of n])

lemma nat_of_str_snoc: "nat_of_str (ds @ [c]) = 10 * nat_of_str ds + digit_val c"
  by (simp add: nat_of_str_def)

lemma nat_of_str_str: "nat_of_str (str n) = n"
proof (induction n rule: str.induct)
  case (1 n)
  show ?case
  proof (cases "n < 10")
    case True
    then show ?thesis by (simp add: str.simps [of n] nat_of_str_def digit_val_nth)
  next
    case False
    with "1.IH" show ?thesis
      by (simp add: str.simps [of n] nat_of_str_snoc digit_val_nth)
  qed
qed

lemma str_inj: "str a = str b \<longleftrightarrow> a = b"
  by (metis nat_of_str_str)

lemma takeWhile_digits:
  "\<not> is_digit c \<Longrightarrow> takeWhile is_digit (rev (str k) @ c # r) = rev (str k)"
  by (subst takeWhile_append2) (auto simp: str_digits)

lemma dropWhile_digits:
  "\<not> is_digit c \<Longrightarrow> dropWhile is_digit (rev (str k) @ c # r) = c # r"
  by (subst dropWhile_append2) (auto simp: str_digits)

lemma not_digit_underscore: "\<not> is_digit CHR ''_''"
  by (simp add: is_digit_def)

lemma not_digit_colon: "\<not> is_digit CHR '':''"
  by (simp add: is_digit_def)

lemma name_counter_fresh: "name_counter (name_with_counter b k) = Some k"
  by (simp add: name_counter_def name_with_counter_def takeWhile_digits dropWhile_digits
      not_digit_underscore str_nonempty nat_of_str_str Let_def)

lemma strip_port_port: "strip_port (port nm i) = nm"
  by (simp add: strip_port_def port_def takeWhile_digits dropWhile_digits
      not_digit_colon str_nonempty Let_def)

lemma strip_port_name: "strip_port (name_with_counter b k) = name_with_counter b k"
  by (simp add: strip_port_def name_with_counter_def takeWhile_digits dropWhile_digits
      not_digit_underscore str_nonempty Let_def)

lemma port_inj: "port nm i = port nm' j \<longleftrightarrow> nm = nm' \<and> i = j"
proof
  assume h: "port nm i = port nm' j"
  then have "strip_port (port nm i) = strip_port (port nm' j)" by simp
  then have e: "nm = nm'" by (simp add: strip_port_port)
  with h have "str i = str j" by (simp add: port_def)
  with e show "nm = nm' \<and> i = j" by (simp add: str_inj)
qed simp

lemma name_with_counter_inj:
  "name_with_counter b k = name_with_counter b' k' \<longleftrightarrow> b = b' \<and> k = k'"
proof
  assume h: "name_with_counter b k = name_with_counter b' k'"
  then have "name_counter (name_with_counter b k) = name_counter (name_with_counter b' k')"
    by simp
  then have e: "k = k'" by (simp add: name_counter_fresh)
  with h show "b = b' \<and> k = k'" by (simp add: name_with_counter_def)
qed simp

lemma name_with_counter_neq:
  "k \<noteq> k' \<Longrightarrow> (name_with_counter b k = name_with_counter b' k') = False"
  by (simp add: name_with_counter_inj)

lemma name_with_counter_same:
  "(name_with_counter b k = name_with_counter b' k) = (b = b')"
  by (simp add: name_with_counter_inj)

lemma is_internal_name: "is_internal n (name_with_counter b k) \<longleftrightarrow> n \<le> k"
  by (simp add: is_internal_def strip_port_name name_counter_fresh)

lemma is_internal_port: "is_internal n (port (name_with_counter b k) j) \<longleftrightarrow> n \<le> k"
  by (simp add: is_internal_def strip_port_port name_counter_fresh)

lemma external_neq_port:
  "\<not> is_internal n x \<Longrightarrow> n \<le> k \<Longrightarrow> (x = port (name_with_counter b k) j) = False"
  "\<not> is_internal n x \<Longrightarrow> n \<le> k \<Longrightarrow> (port (name_with_counter b k) j = x) = False"
  by (auto simp: is_internal_port)

lemma external_neq_name:
  "\<not> is_internal n x \<Longrightarrow> n \<le> k \<Longrightarrow> (x = name_with_counter b k) = False"
  "\<not> is_internal n x \<Longrightarrow> n \<le> k \<Longrightarrow> (name_with_counter b k = x) = False"
  by (auto simp: is_internal_name)

section \<open>Projections of the graph operations\<close>

lemma make_name_simps [simp]:
  "fst (make_name base c) = name_with_counter base (internal_name c)"
  "nodes (snd (make_name base c)) = nodes c"
  "internal_name (snd (make_name base c)) = Suc (internal_name c)"
  "calls (snd (make_name base c)) = calls c"
  "shapes (snd (make_name base c)) = shapes c"
  "dtypes (snd (make_name base c)) = dtypes c"
  "opset (snd (make_name base c)) = opset c"
  "infer_dtype (snd (make_name base c)) = infer_dtype c"
  by (simp_all add: make_name_def)

lemma make_node_simps [simp]:
  "fst (make_node op ins attrs k c) =
     \<lparr>name = name_with_counter op (internal_name c), op_type = op, inputs = ins,
      outputs = map (port (name_with_counter op (internal_name c))) [0..<k], attr = attrs\<rparr>"
  "nodes (snd (make_node op ins attrs k c)) = nodes c @ [fst (make_node op ins attrs k c)]"
  "internal_name (snd (make_node op ins attrs k c)) = Suc (internal_name c)"
  "calls (snd (make_node op ins attrs k c)) =
     calls c @ [MakeNode (fst (make_node op ins attrs k c))]"
  "shapes (snd (make_node op ins attrs k c)) = shapes c"
  "opset (snd (make_node op ins attrs k c)) = opset c"
  "infer_dtype (snd (make_node op ins attrs k c)) = infer_dtype c"
  by (simp_all add: make_node_def make_name_def add_node_def Let_def)

lemma make_node_dtypes:
  "dtypes (snd (make_node op ins attrs k c)) r =
     (if r \<in> set (map (port (name_with_counter op (internal_name c))) [0..<k])
      then infer_dtype c op (dtypes c) ins else dtypes c r)"
  by (simp add: make_node_def make_name_def add_node_def Let_def)

lemma make_node_outputs_simps [simp]:
  "fst (make_node_outputs op ins outs attrs c) =
     \<lparr>name = name_with_counter op (internal_name c), op_type = op, inputs = ins,
      outputs = outs, attr = attrs\<rparr>"
  "nodes (snd (make_node_outputs op ins outs attrs c)) =
     nodes c @ [fst (make_node_outputs op ins outs attrs c)]"
  "internal_name (snd (make_node_outputs op ins outs attrs c)) = Suc (internal_name c)"
  "calls (snd (make_node_outputs op ins outs attrs c)) =
     calls c @ [MakeNode (fst (make_node_outputs op ins outs attrs c))]"
  "shapes (snd (make_node_outputs op ins outs attrs c)) = shapes c"
  "opset (snd (make_node_outputs op ins outs attrs c)) = opset c"
  "infer_dtype (snd (make_node_outputs op ins outs attrs c)) = infer_dtype c"
  by (simp_all add: make_node_outputs_def make_name_def add_node_def Let_def)

lemma make_const_simps [simp]:
  "fst (make_const nm t c) =
     \<lparr>name = nm, op_type = ''Const'', inputs = [], outputs = [port nm 0],
      attr = [(''value'', AttrT t)]\<rparr>"
  "nodes (snd (make_const nm t c)) = nodes c @ [fst (make_const nm t c)]"
  "internal_name (snd (make_const nm t c)) = internal_name c"
  "calls (snd (make_const nm t c)) = calls c @ [MakeConst (fst (make_const nm t c))]"
  "shapes (snd (make_const nm t c)) = (shapes c)(port nm 0 \<mapsto> t_shape t)"
  "dtypes (snd (make_const nm t c)) = (dtypes c)(port nm 0 \<mapsto> t_dtype t)"
  "opset (snd (make_const nm t c)) = opset c"
  "infer_dtype (snd (make_const nm t c)) = infer_dtype c"
  by (simp_all add: make_const_def Let_def)

lemma replace_output_simps [simp]:
  "nodes (replace_output old new c) = map (replace_input old new) (nodes c)"
  "internal_name (replace_output old new c) = internal_name c"
  "calls (replace_output old new c) =
     calls c @ [ReplaceAllInputs old new, CopyDtype old new, CopyShape old new]"
  "shapes (replace_output old new c) = (shapes c)(new := shapes c old)"
  "dtypes (replace_output old new c) = (dtypes c)(new := dtypes c old)"
  "opset (replace_output old new c) = opset c"
  "infer_dtype (replace_output old new c) = infer_dtype c"
  by (simp_all add: replace_output_def replace_all_inputs_def copy_dtype_def copy_shape_def)

lemma remove_node_simps [simp]:
  "nodes (remove_node nm c) = filter (\<lambda>n. name n \<noteq> nm) (nodes c)"
  "internal_name (remove_node nm c) = internal_name c"
  "calls (remove_node nm c) = calls c @ [RemoveNode nm]"
  "shapes (remove_node nm c) = shapes c"
  "dtypes (remove_node nm c) = dtypes c"
  "opset (remove_node nm c) = opset c"
  "infer_dtype (remove_node nm c) = infer_dtype c"
  by (simp_all add: remove_node_def)

lemma make_sigmoid_simps [simp]:
  "fst (make_sigmoid i w b c) = port (name_with_counter ''Sigmoid'' (internal_name c + 2)) 0"
  "nodes (snd (make_sigmoid i w b c)) = nodes c @
     [\<lparr>name = name_with_counter ''Mul'' (internal_name c), op_type = ''Mul'', inputs = [i, w],
       outputs = [port (name_with_counter ''Mul'' (internal_name c)) 0], attr = []\<rparr>,
      \<lparr>name = name_with_counter ''Add'' (internal_name c + 1), op_type = ''Add'',
       inputs = [port (name_with_counter ''Mul'' (internal_name c)) 0, b],
       outputs = [port (name_with_counter ''Add'' (internal_name c + 1)) 0], attr = []\<rparr>,
      \<lparr>name = name_with_counter ''Sigmoid'' (internal_name c + 2), op_type = ''Sigmoid'',
       inputs = [port (name_with_counter ''Add'' (internal_name c + 1)) 0],
       outputs = [port (name_with_counter ''Sigmoid'' (internal_name c + 2)) 0], attr = []\<rparr>]"
  "calls (snd (make_sigmoid i w b c)) = calls c @
     [MakeNode \<lparr>name = name_with_counter ''Mul'' (internal_name c), op_type = ''Mul'',
        inputs = [i, w],
        outputs = [port (name_with_counter ''Mul'' (internal_name c)) 0], attr = []\<rparr>,
      MakeNode \<lparr>name = name_with_counter ''Add'' (internal_name c + 1), op_type = ''Add'',
        inputs = [port (name_with_counter ''Mul'' (internal_name c)) 0, b],
        outputs = [port (name_with_counter ''Add'' (internal_name c + 1)) 0], attr = []\<rparr>,
      MakeNode \<lparr>name = name_with_counter ''Sigmoid'' (internal_name c + 2),
        op_type = ''Sigmoid'',
        inputs = [port (name_with_counter ''Add'' (internal_name c + 1)) 0],
        outputs = [port (name_with_counter ''Sigmoid'' (internal_name c + 2)) 0], attr = []\<rparr>]"
  "internal_name (snd (make_sigmoid i w b c)) = internal_name c + 3"
  "shapes (snd (make_sigmoid i w b c)) = shapes c"
  "opset (snd (make_sigmoid i w b c)) = opset c"
  "infer_dtype (snd (make_sigmoid i w b c)) = infer_dtype c"
  by (simp_all add: make_sigmoid_def Let_def split_def)

lemma replace_input_id: "old \<notin> set (inputs n) \<Longrightarrow> replace_input old new n = n"
  by (cases n) (auto simp: replace_input_def intro!: map_idI)

lemma drop_old: "length xs' = length xs \<Longrightarrow> drop (length xs) (xs' @ ys) = ys"
  by simp

lemma make_sigmoid_dtypes:
  "r \<noteq> port (name_with_counter ''Mul'' (internal_name c)) 0 \<Longrightarrow>
   r \<noteq> port (name_with_counter ''Add'' (internal_name c + 1)) 0 \<Longrightarrow>
   r \<noteq> port (name_with_counter ''Sigmoid'' (internal_name c + 2)) 0 \<Longrightarrow>
   dtypes (snd (make_sigmoid i w b c)) r = dtypes c r"
  by (simp add: make_sigmoid_def Let_def split_def make_node_dtypes)

lemma div4_nonneg: "0 \<le> (d::int) \<Longrightarrow> \<not> d div 4 < 0"
  by simp

lemma upt4: "[0..<4] = [0, 1, 2, 3]"
  by (simp add: upt_rec)

lemma list8:
  "length xs = 8 \<Longrightarrow> \<exists>a b c d e f g h. xs = [a, b, c, d, e, f, g, h]"
  by (simp add: eval_nat_numeral length_Suc_conv) blast

lemma list7:
  "length xs = 7 \<Longrightarrow> \<exists>a b c d e f g. xs = [a, b, c, d, e, f, g]"
  by (simp add: eval_nat_numeral length_Suc_conv) blast

lemma example_graph_simps:
  "nodes example_graph = []" "internal_name example_graph = 0" "calls example_graph = []"
  "opset example_graph = 11"
  "shapes example_graph = map_of [(''w'', [3, 8]), (''w_bad'', [3, 6]), (''X'', [5, 1, 2]),
                       (''H3'', [3, 1, 4]), (''H4'', [4, 1, 4])]"
  by (simp_all add: example_graph_def)

section \<open>Failure on a weight shape that is not a multiple of four\<close>

text \<open>
  Claim C5, as amended. When the eight inputs and the three attributes are present and the
  recorded shape of the weight is not two-dimensional with a trailing dimension divisible
  by 4, the gated-cell lowering fails with the error whose message names the fused node.
  It fails after the concatenate and the matrix-multiply node have been created: the graph
  has exactly these two new nodes, and no constant.
\<close>

theorem lstm_bad_weight_shape:
  assumes "inputs nd = [x, cs_prev, h_prev, w, wci, wcf, wco, b]"
    and "get_attr nd ''forget_bias'' \<noteq> None" "get_attr nd ''cell_clip'' \<noteq> None"
        "get_attr nd ''use_peephole'' \<noteq> None"
    and "get_shape ctx w = Some w_shape"
    and "length w_shape \<noteq> 2 \<or> (w_shape ! 1) mod 4 \<noteq> 0"
  shows "fst (version_1 ctx nd) =
           Inl (RuntimeError (''shape of W of LSTMBlockCell '' @ name nd
                                @ '' should be times of 4'')) \<and>
         new_calls ctx (snd (version_1 ctx nd)) =
           [MakeNode (op1 ''Concat'' (internal_name ctx) [x, h_prev] [(''axis'', AttrI 1)]),
            MakeNode (op1 ''MatMul'' (internal_name ctx + 1)
                        [out1 ''Concat'' (internal_name ctx), w] [])] \<and>
         new_nodes ctx (snd (version_1 ctx nd)) =
           [op1 ''Concat'' (internal_name ctx) [x, h_prev] [(''axis'', AttrI 1)],
            op1 ''MatMul'' (internal_name ctx + 1) [out1 ''Concat'' (internal_name ctx), w] []]"
  using assms
  by (auto simp: version_1_def Let_def split_def get_shape_def new_calls_def new_nodes_def
      op1_def out1_def)

text \<open>The theorem at a cell whose weight has shape \<open>[3, 6]\<close>.\<close>

theorem lstm_bad_weight_shape_witness:
  "fst (version_1 example_graph (example_cell ''w_bad'' (- 1) 0)) =
     Inl (RuntimeError ''shape of W of LSTMBlockCell cell should be times of 4'')"
  using lstm_bad_weight_shape [of "example_cell ''w_bad'' (- 1) 0" "''x''" "''cs_prev''"
      "''h_prev''" "''w_bad''" "''wci''" "''wcf''" "''wco''" "''b''" example_graph "[3, 6]"]
  by (simp add: example_cell_def get_attr_def get_shape_def example_graph_simps)

text \<open>The claim as stated (zero new nodes on failure) fails at the same cell: the
  failing call leaves two more nodes in the graph.\<close>

theorem lstm_bad_weight_shape_counterexample:
  "fst (version_1 example_graph (example_cell ''w_bad'' (- 1) 0)) =
     Inl (RuntimeError ''shape of W of LSTMBlockCell cell should be times of 4'') \<and>
   length (nodes (snd (version_1 example_graph (example_cell ''w_bad'' (- 1) 0)))) =
     length (nodes example_graph) + 2"
  by (simp add: version_1_def Let_def split_def get_shape_def example_cell_def get_attr_def
      example_graph_simps)

section \<open>Unsupported configurations of the recurrent network\<close>

text \<open>
  Claim C7, as amended. When the node has its four inputs and the three mode attributes,
  and the recurrence mode, the dropout rate or the input-wiring mode is not the supported
  one, the multi-layer lowering fails with the unsupported-configuration error of the
  first violated constraint and returns the graph context unchanged: no constant and no
  primitive node is created. The error carries the message of the constraint only; it
  does not depend on the name of the node.
\<close>

theorem rnn_unsupported_configuration:
  assumes "4 \<le> length (inputs nd)"
    and "get_attr nd ''rnn_mode'' = Some m" "get_attr nd ''dropout'' = Some d"
        "get_attr nd ''input_mode'' = Some i"
    and "attr_s m \<noteq> ''gru'' \<or> attr_f d \<noteq> 0 \<or> attr_s i \<noteq> ''linear_input''"
  shows "version_11 ctx nd =
           (Inl (UnsupportedConfiguration
                  (if attr_s m \<noteq> ''gru'' then ''rnn mode other than gru are not supported yet''
                   else if attr_f d \<noteq> 0 then ''dropout not supported yet''
                   else ''input mode must be linear input'')), ctx)"
  using assms by (auto simp: version_11_def make_sure_def Let_def)

text \<open>The theorem at a node that asks for the mode \<open>lstm\<close>.\<close>

theorem rnn_unsupported_configuration_witness:
  "version_11 example_graph (example_rnn ''rnn_a'' ''lstm'' ''unidirectional'' ''H4'') =
     (Inl (UnsupportedConfiguration ''rnn mode other than gru are not supported yet''),
      example_graph)"
  using rnn_unsupported_configuration [of "example_rnn ''rnn_a'' ''lstm'' ''unidirectional'' ''H4''"
      "AttrS ''lstm''" "AttrF 0" "AttrS ''linear_input''" example_graph]
  by (simp add: example_rnn_def get_attr_def)

text \<open>The claim as stated (the error identifies the offending node by name) fails:
  two nodes with different names fail with the same error.\<close>

theorem rnn_error_does_not_name_node_counterexample:
  "fst (version_11 example_graph (example_rnn ''rnn_a'' ''lstm'' ''unidirectional'' ''H4'')) =
   fst (version_11 example_graph (example_rnn ''rnn_b'' ''lstm'' ''unidirectional'' ''H4'')) \<and>
   name (example_rnn ''rnn_a'' ''lstm'' ''unidirectional'' ''H4'') \<noteq>
   name (example_rnn ''rnn_b'' ''lstm'' ''unidirectional'' ''H4'')"
  by (simp add: version_11_def make_sure_def Let_def example_rnn_def get_attr_def)

end
